theory Spec2Isabelle
  imports Main "HOL-Library.Word" "HOL-Library.Sublist"
begin

section \<open>Strings\<close>

text \<open>
  A Go \<open>string\<close> is a sequence of bytes, here a \<^typ>\<open>string\<close> (a list of 8-bit characters).
  The cutset and the replaced characters used by the tracer are ASCII, so the byte view and Go's
  rune view of \<open>strings.Trim\<close> and \<open>html.EscapeString\<close> agree.
\<close>

definition LF :: char where
  "LF = CHR 0x0A"

definition CR :: char where
  "CR = CHR 0x0D"

definition DQ :: char where
  "DQ = CHR 0x22"

definition BS :: char where
  "BS = CHR 0x5C"

text \<open>\<open>strings.Trim(s, cutset)\<close>: every leading and every trailing byte of \<open>s\<close> that
  occurs in \<open>cutset\<close> is removed.\<close>

definition TrimLeft :: "string \<Rightarrow> string \<Rightarrow> string" where
  "TrimLeft s cutset = dropWhile (\<lambda>c. c \<in> set cutset) s"

definition TrimRight :: "string \<Rightarrow> string \<Rightarrow> string" where
  "TrimRight s cutset = rev (dropWhile (\<lambda>c. c \<in> set cutset) (rev s))"

definition Trim :: "string \<Rightarrow> string \<Rightarrow> string" where
  "Trim s cutset = TrimRight (TrimLeft s cutset) cutset"

text \<open>The cutset of the tracer, the Go literal \<open>"[]\r\n"\<close>.\<close>

definition traceCutset :: string where
  "traceCutset = ''[]'' @ [CR, LF]"

text \<open>\<open>html.EscapeString\<close>: the five characters \<open>& ' < > "\<close> are replaced.\<close>

definition escapeChar :: "char \<Rightarrow> string" where
  "escapeChar c =
     (if c = CHR ''&'' then ''&amp;''
      else if c = CHR 0x27 then ''&#39;''
      else if c = CHR ''<'' then ''&lt;''
      else if c = CHR ''>'' then ''&gt;''
      else if c = DQ then ''&#34;''
      else [c])"

definition EscapeString :: "string \<Rightarrow> string" where
  "EscapeString s = concat (map escapeChar s)"

section \<open>Argument values and their serialization\<close>

text \<open>
  An \<open>Array\<close> is a Go \<open>[]interface{}\<close> of values that are sent to the page as JSON.
  Numbers are restricted to integers: the textual form of a \<open>float64\<close> is outside the model.
  \<open>JRemote\<close> is a \<open>proto.RuntimeRemoteObjectID\<close>, a Go string type that names an object of
  the page (line 924 passes the empty one to obtain the helper library).
\<close>

datatype json =
    JNull
  | JBool bool
  | JNum int
  | JStr string
  | JRemote string
  | JArr "json list"
  | JObj "(string \<times> json) list"

fun digitChar :: "nat \<Rightarrow> char" where
  "digitChar n = char_of (48 + n)"

function natString :: "nat \<Rightarrow> string" where
  "natString n = (if n < 10 then [digitChar n] else natString (n div 10) @ [digitChar (n mod 10)])"
  by pat_completeness auto
termination
  by (relation "measure id") auto

declare natString.simps [simp del]

definition intString :: "int \<Rightarrow> string" where
  "intString i = (if i < 0 then CHR ''-'' # natString (nat (- i)) else natString (nat i))"

definition hexDigit :: "nat \<Rightarrow> char" where
  "hexDigit n = (if n < 10 then char_of (48 + n) else char_of (87 + n))"

definition jsonChar :: "char \<Rightarrow> string" where
  "jsonChar c =
     (if c = DQ then [BS, DQ]
      else if c = BS then [BS, BS]
      else if c = LF then [BS, CHR ''n'']
      else if c = CR then [BS, CHR ''r'']
      else if c = CHR 0x09 then [BS, CHR ''t'']
      else if of_char c < (32::nat)
        then [BS] @ ''u00'' @ [hexDigit (of_char c div 16), hexDigit (of_char c mod 16)]
      else [c])"

definition jsonQuote :: "string \<Rightarrow> string" where
  "jsonQuote s = [DQ] @ concat (map jsonChar s) @ [DQ]"

fun joinComma :: "string list \<Rightarrow> string" where
  "joinComma [] = []"
| "joinComma [s] = s"
| "joinComma (s # t # ss) = s @ '','' @ joinComma (t # ss)"

fun encodeJSON :: "json \<Rightarrow> string" where
  "encodeJSON JNull = ''null''"
| "encodeJSON (JBool b) = (if b then ''true'' else ''false'')"
| "encodeJSON (JNum i) = intString i"
| "encodeJSON (JStr s) = jsonQuote s"
| "encodeJSON (JRemote s) = jsonQuote s"
| "encodeJSON (JArr vs) = ''['' @ joinComma (map encodeJSON vs) @ '']''"
| "encodeJSON (JObj kvs) =
     ''{'' @ joinComma (map (\<lambda>(k, v). jsonQuote k @ '':'' @ encodeJSON v) kvs) @ ''}''"

text \<open>
  Modelled from the spec: \<open>mustToJSONForDev\<close> is called by the tracer but defined outside
  \<open>sugar.go\<close>. The spec describes it as serializing the argument list ``to a JSON-like
  compact textual form'' that is surrounded by whitespace to be stripped: the compact JSON text
  of the array followed by a line feed. \<open>jsonForDevText\<close> is the text it returns.
\<close>

definition jsonForDevText :: "json list \<Rightarrow> string" where
  "jsonForDevText params = encodeJSON (JArr params) @ [LF]"

section \<open>The generated-wrapper pattern\<close>

text \<open>
  \<open>regHelperJS\<close> is the regular expression
  \<^verbatim>\<open>\A\(rod, \.\.\.args\) => (rod\..+)\.apply\(this, \<close>:
  anchored at the start of the text, the literal \<open>(rod, ...args) => \<close>, then the capture group
  (the literal \<open>rod.\<close> and one or more characters other than a line feed, greedy), then the
  literal \<open>.apply(this, \<close>.
\<close>

definition wrapperHead :: string where
  "wrapperHead = ''(rod, ...args) => ''"

definition wrapperTail :: string where
  "wrapperTail = ''.apply(this, ''"

text \<open>The lengths the greedy \<open>.+\<close> tries on \<open>s\<close>, the longest first: it never crosses a
  line feed and takes at least one character.\<close>

definition dotPlusLengths :: "string \<Rightarrow> nat list" where
  "dotPlusLengths s = rev [1 ..< Suc (length (takeWhile (\<lambda>c. c \<noteq> LF) s))]"

text \<open>\<open>regHelperJS.FindStringSubmatch(js)\<close>: \<open>None\<close> is Go's \<open>nil\<close>; a match is the list of the
  whole matched text and the text of the capture group.\<close>

definition FindStringSubmatch :: "string \<Rightarrow> string list option" where
  "FindStringSubmatch js =
     (if \<not> prefix (wrapperHead @ ''rod.'') js then None
      else
        let rest = drop (length (wrapperHead @ ''rod.'')) js in
        case find (\<lambda>n. prefix wrapperTail (drop n rest)) (dotPlusLengths rest) of
          None \<Rightarrow> None
        | Some n \<Rightarrow>
            Some [wrapperHead @ ''rod.'' @ take n rest @ wrapperTail, ''rod.'' @ take n rest])"

section \<open>Effects\<close>

text \<open>
  Go \<open>error\<close> values. \<open>defaultTraceLogErr\<close> tells the two context errors from all others.
\<close>

datatype error = Canceled | DeadlineExceeded | OtherError string

text \<open>The text of \<open>err.Error()\<close>, which \<open>fmt\<close> prints for \<open>%v\<close>.\<close>

fun errorText :: "error \<Rightarrow> string" where
  "errorText Canceled = ''context canceled''"
| "errorText DeadlineExceeded = ''context deadline exceeded''"
| "errorText (OtherError s) = s"

text \<open>
  A panic: a slice expression out of range (\<open>SliceBounds low high\<close>), or \<open>utils.E(err)\<close>
  with an error that is not \<open>nil\<close>.
\<close>

datatype panic = SliceBounds nat nat | ErrorPanic error

fun panicText :: "panic \<Rightarrow> string" where
  "panicText (SliceBounds lo hi) =
     ''runtime error: slice bounds out of range ['' @ natString lo @ '':'' @ natString hi @ '']''"
| "panicText (ErrorPanic e) = errorText e"

text \<open>
  Every call that leaves the process is an event; a run is the list of its events, oldest first.
  The calls are the remote evaluations of the page and of an element, the three trace sinks'
  outputs on the standard logger, \<open>time.Sleep\<close>, \<open>kit.RandString\<close>, the development
  serializer, and the calls of the monitor server.
\<close>

datatype event =
    PageEvalE string bool string string "json list"
  | ElementEvalE string bool string "json list"
  | LogPrintln string string string
  | Sleep "64 word"
  | RandString nat
  | ToJSONForDev "json list"
  | Listen string
  | GoServe string
  | GoCloseOnDone string
  | OpenBrowser string

type_synonym run = "event list"

text \<open>The result of a remote evaluation, \<open>proto.RuntimeRemoteObject\<close>; only its value is read.\<close>

record remoteObject =
  Value :: json

text \<open>
  The world outside the process answers the calls that return something. Each answer may depend
  on everything that happened so far, the call itself included (the last event of the run).
\<close>

record env =
  evalReply :: "run \<Rightarrow> error + remoteObject"
  randReply :: "run \<Rightarrow> string"
  listenReply :: "run \<Rightarrow> error + string"

definition PageEvalE_call ::
  "env \<Rightarrow> string \<Rightarrow> bool \<Rightarrow> string \<Rightarrow> string \<Rightarrow> json list \<Rightarrow> run \<Rightarrow> (error + remoteObject) \<times> run" where
  "PageEvalE_call e target byValue thisID js params r =
     (let r' = r @ [PageEvalE target byValue thisID js params] in (evalReply e r', r'))"

definition ElementEvalE_call ::
  "env \<Rightarrow> string \<Rightarrow> bool \<Rightarrow> string \<Rightarrow> json list \<Rightarrow> run \<Rightarrow> (error + remoteObject) \<times> run" where
  "ElementEvalE_call e objectID byValue js params r =
     (let r' = r @ [ElementEvalE objectID byValue js params] in (evalReply e r', r'))"

definition RandString_call :: "env \<Rightarrow> nat \<Rightarrow> run \<Rightarrow> string \<times> run" where
  "RandString_call e n r = (let r' = r @ [RandString n] in (randReply e r', r'))"

text \<open>The call of \<open>mustToJSONForDev\<close>: it returns the text and is recorded in the run.\<close>

definition mustToJSONForDev :: "json list \<Rightarrow> run \<Rightarrow> string \<times> run" where
  "mustToJSONForDev params r = (jsonForDevText params, r @ [ToJSONForDev params])"

section \<open>Browser, page, element, mouse\<close>

text \<open>
  The fields of \<open>Browser\<close> the tracer reads: the three flags and the three sinks, which are
  function values a caller may replace.
\<close>

record browser =
  trace :: bool
  quiet :: bool
  slowmotion :: "64 word"
  traceLogAct :: "string \<Rightarrow> run \<Rightarrow> run"
  traceLogJS :: "string \<Rightarrow> json list \<Rightarrow> run \<Rightarrow> run"
  traceLogErr :: "error \<Rightarrow> run \<Rightarrow> run"

text \<open>A page is known by its target and by the target of its root frame (\<open>p.Root()\<close>).\<close>

record page =
  pageBrowser :: browser
  targetID :: string
  rootID :: string

record element =
  elPage :: page
  objectID :: string

text \<open>The pointer position is given in whole numbers here, where the source has \<open>float64\<close>.\<close>

record mouse =
  mousePage :: page
  mouseID :: string
  mouseX :: int
  mouseY :: int

text \<open>
  Modelled from the spec: \<open>jsHelper\<close> is defined outside \<open>sugar.go\<close>. The spec has the
  helper library produce the two-argument lambda \<open>(rod, ...args) => <name>.apply(this, ...)\<close>
  for a logical name and pass a synthetic library reference before the caller's arguments.
\<close>

definition jsHelper :: "string \<Rightarrow> json list \<Rightarrow> string \<times> json list" where
  "jsHelper name params =
     (wrapperHead @ ''rod.'' @ name @ wrapperTail @ ''args)'', JRemote [] # params)"

section \<open>Overlays\<close>

text \<open>
  \<open>Page.Overlay\<close> (lines 896 to 919). The result is the \<open>remove\<close> closure, a further action
  on the run, and the run after the call. The rectangle is given in whole numbers here, where
  the source has \<open>float64\<close>.
\<close>

definition Overlay ::
  "env \<Rightarrow> page \<Rightarrow> int \<Rightarrow> int \<Rightarrow> int \<Rightarrow> int \<Rightarrow> string \<Rightarrow> run \<Rightarrow> (run \<Rightarrow> run) \<times> run" where
  "Overlay e p left top' width height msg r =
     (let root = rootID p;
          (ident, r1) = RandString_call e 8 r;
          (js, jsArgs) =
            jsHelper ''overlay''
              [JStr ident, JNum left, JNum top', JNum width, JNum height, JStr msg];
          (res, r2) = PageEvalE_call e root True [] js jsArgs r1;
          r3 = (case res of Inl err \<Rightarrow> traceLogErr (pageBrowser p) err r2 | Inr _ \<Rightarrow> r2);
          remove = (\<lambda>t.
            let (js, jsArgs) = jsHelper ''removeOverlay'' [JStr ident]
            in snd (PageEvalE_call e root True [] js jsArgs t))
      in (remove, r3))"

text \<open>\<open>Element.Trace\<close> (lines 929 to 947).\<close>

definition Trace :: "env \<Rightarrow> element \<Rightarrow> string \<Rightarrow> run \<Rightarrow> (run \<Rightarrow> run) \<times> run" where
  "Trace e el msg r =
     (let (ident, r1) = RandString_call e 8 r;
          (js, jsArgs) = jsHelper ''elementOverlay'' [JStr ident, JStr msg];
          (res, r2) = ElementEvalE_call e (objectID el) True js jsArgs r1;
          r3 = (case res of
                  Inl err \<Rightarrow> traceLogErr (pageBrowser (elPage el)) err r2
                | Inr _ \<Rightarrow> r2);
          removeOverlay = (\<lambda>t.
            let (js, jsArgs) = jsHelper ''removeOverlay'' [JStr ident]
            in snd (ElementEvalE_call e (objectID el) True js jsArgs t))
      in (removeOverlay, r3))"

section \<open>Pacer and call tracer\<close>

text \<open>\<open>Browser.trySlowmotion\<close> (lines 950 to 956). A \<open>time.Duration\<close> is an \<open>int64\<close>.\<close>

definition trySlowmotion :: "browser \<Rightarrow> run \<Rightarrow> run" where
  "trySlowmotion b r = (if slowmotion b = 0 then r else r @ [Sleep (slowmotion b)])"

text \<open>The closure \<open>func() {}\<close>.\<close>

definition noop :: "run \<Rightarrow> run" where
  "noop r = r"

text \<open>\<open>Element.tryTrace\<close> (lines 958 to 968).\<close>

definition tryTrace :: "env \<Rightarrow> element \<Rightarrow> string \<Rightarrow> run \<Rightarrow> (run \<Rightarrow> run) \<times> run" where
  "tryTrace e el msg r =
     (let b = pageBrowser (elPage el) in
      if \<not> trace b then (noop, r)
      else
        let r1 = (if \<not> quiet b then traceLogAct b msg r else r)
        in Trace e el msg r1)"

text \<open>
  Lines 977 to 981 of \<open>tryTraceFn\<close>: the source and the arguments to display. The slice
  expression \<open>params[1:]\<close> panics when \<open>params\<close> is empty.
\<close>

definition unwrapHelperJS :: "string \<Rightarrow> json list \<Rightarrow> panic + string \<times> json list" where
  "unwrapHelperJS js params =
     (case FindStringSubmatch js of
        None \<Rightarrow> Inr (js, params)
      | Some matches \<Rightarrow>
          (case params of
             [] \<Rightarrow> Inl (SliceBounds 1 0)
           | _ # ps \<Rightarrow> Inr (matches ! 1, ps)))"

text \<open>Line 988, \<open>fmt.Sprintf("js <code>%s(%s)</code>", js, html.EscapeString(paramsStr))\<close>.\<close>

definition traceFnMsg :: "string \<Rightarrow> string \<Rightarrow> string" where
  "traceFnMsg js paramsStr = ''js <code>'' @ js @ ''('' @ EscapeString paramsStr @ '')</code>''"

text \<open>\<open>Page.tryTraceFn\<close> (lines 972 to 990). A panic happens before any event.\<close>

definition tryTraceFn ::
  "env \<Rightarrow> page \<Rightarrow> string \<Rightarrow> json list \<Rightarrow> run \<Rightarrow> panic + (run \<Rightarrow> run) \<times> run" where
  "tryTraceFn e p js params r =
     (if \<not> trace (pageBrowser p) then Inr (noop, r)
      else
        case unwrapHelperJS js params of
          Inl pn \<Rightarrow> Inl pn
        | Inr (js', params') \<Rightarrow>
            let (text, r1) = mustToJSONForDev params' r;
                paramsStr = Trim text traceCutset;
                r2 = (if \<not> quiet (pageBrowser p)
                      then traceLogJS (pageBrowser p) js' params' r1 else r1);
                msg = traceFnMsg js' paramsStr
            in Inr (Overlay e p 0 0 500 0 msg r2))"

section \<open>The default sinks\<close>

text \<open>\<open>log.Println(kit.C(label, colour), msg)\<close> is the event \<open>LogPrintln label colour msg\<close>.\<close>

definition defaultTraceLogAct :: "string \<Rightarrow> run \<Rightarrow> run" where
  "defaultTraceLogAct msg r = r @ [LogPrintln ''act'' ''cyan'' msg]"

definition defaultTraceLogJS :: "string \<Rightarrow> json list \<Rightarrow> run \<Rightarrow> run" where
  "defaultTraceLogJS js params r =
     (let (paramsStr, r1) =
            (if length params > 0
             then (let (text, r') = mustToJSONForDev params r in (Trim text traceCutset, r'))
             else ([], r));
          msg = js @ ''('' @ paramsStr @ '')''
      in r1 @ [LogPrintln ''js'' ''yellow'' msg])"

definition defaultTraceLogErr :: "error \<Rightarrow> run \<Rightarrow> run" where
  "defaultTraceLogErr err r =
     (if err \<noteq> Canceled \<and> err \<noteq> DeadlineExceeded
      then r @ [LogPrintln ''[rod trace err]'' ''yellow'' (errorText err)]
      else r)"

section \<open>Mouse tracer\<close>

text \<open>
  The boolean reading \<open>res.Value.Bool()\<close> of a result value, as the JSON library outside the
  repository defines it: \<open>true\<close>, a number other than zero, and a string that parses as true.
\<close>

definition lowerChar :: "char \<Rightarrow> char" where
  "lowerChar c =
     (if (65::nat) \<le> of_char c \<and> of_char c \<le> (90::nat) then char_of (of_char c + (32::nat)) else c)"

definition jsonBool :: "json \<Rightarrow> bool" where
  "jsonBool v =
     (case v of
        JBool b \<Rightarrow> b
      | JNum i \<Rightarrow> i \<noteq> 0
      | JStr s \<Rightarrow> map lowerChar s \<in> set [''1'', ''t'', ''true'']
      | _ \<Rightarrow> False)"

text \<open>\<open>Mouse.initMouseTracer\<close> (lines 1011 to 1014); \<open>pointer\<close> is the icon asset
  \<open>assets.MousePointer\<close>, a constant outside \<open>sugar.go\<close>.\<close>

definition initMouseTracer :: "env \<Rightarrow> string \<Rightarrow> mouse \<Rightarrow> run \<Rightarrow> run" where
  "initMouseTracer e pointer m r =
     (let (js, params) = jsHelper ''initMouseTracer'' [JStr (mouseID m), JStr pointer]
      in snd (PageEvalE_call e (targetID (mousePage m)) True [] js params r))"

text \<open>\<open>Mouse.updateMouseTracer\<close> (lines 1016 to 1023).\<close>

definition updateMouseTracer :: "env \<Rightarrow> mouse \<Rightarrow> run \<Rightarrow> bool \<times> run" where
  "updateMouseTracer e m r =
     (let (js, jsArgs) =
            jsHelper ''updateMouseTracer'' [JStr (mouseID m), JNum (mouseX m), JNum (mouseY m)];
          (res, r1) = PageEvalE_call e (targetID (mousePage m)) True [] js jsArgs r
      in case res of
           Inl err \<Rightarrow> (True, r1)
         | Inr obj \<Rightarrow> (jsonBool (Value obj), r1))"

section \<open>Monitor server\<close>

text \<open>
  The state of one request in the web framework (\<open>kit.GinContext\<close>): the response status,
  headers and body, whether the response head has been sent, the errors attached to the request
  and whether the handler chain was aborted.
\<close>

record ginContext =
  status :: nat
  headers :: "(string \<times> string) list"
  body :: string
  written :: bool
  ginErrors :: "string list"
  aborted :: bool

text \<open>A handler leaves the context as it made it, and either returns or panics.\<close>

type_synonym handler = "ginContext \<Rightarrow> ginContext \<times> panic option"

text \<open>The framework calls the handlers use. Once the head is sent the status stays.\<close>

definition Header :: "string \<Rightarrow> string \<Rightarrow> ginContext \<Rightarrow> ginContext" where
  "Header k v ctx = ctx\<lparr>headers := headers ctx @ [(k, v)]\<rparr>"

definition Write :: "string \<Rightarrow> ginContext \<Rightarrow> ginContext" where
  "Write bin ctx = ctx\<lparr>body := body ctx @ bin, written := True\<rparr>"

definition PureJSON :: "nat \<Rightarrow> json \<Rightarrow> ginContext \<Rightarrow> ginContext" where
  "PureJSON code obj ctx =
     Write (encodeJSON obj)
       (Header ''Content-Type'' ''application/json; charset=utf-8''
          (ctx\<lparr>status := (if written ctx then status ctx else code)\<rparr>))"

definition AbortWithError :: "nat \<Rightarrow> string \<Rightarrow> ginContext \<Rightarrow> ginContext" where
  "AbortWithError code err ctx =
     ctx\<lparr>status := (if written ctx then status ctx else code),
         written := True,
         aborted := True,
         ginErrors := ginErrors ctx @ [err]\<rparr>"

text \<open>
  Modelled from the spec: \<open>ginHTML\<close> is defined outside \<open>sugar.go\<close>. The spec has the routes
  \<open>/\<close> and \<open>/page/:id\<close> answer with a static asset as HTML.
\<close>

definition ginHTML :: "ginContext \<Rightarrow> string \<Rightarrow> ginContext" where
  "ginHTML ctx asset =
     Write asset
       (Header ''Content-Type'' ''text/html; charset=utf-8''
          (ctx\<lparr>status := (if written ctx then status ctx else 200)\<rparr>))"

text \<open>
  The collaborators of the handlers, which return a value or an error: the target list, the
  info of a target, the page of a target, the screenshot of a page, and saving a screenshot.
\<close>

record collaborators =
  TargetGetTargets :: "error + json"
  pageInfo :: "string \<Rightarrow> error + json"
  PageFromTargetIDE :: "string \<Rightarrow> error + page"
  ScreenshotE :: "page \<Rightarrow> error + string"
  saveScreenshot :: "string \<Rightarrow> error option"

text \<open>\<open>utils.E(err)\<close> panics with an error that is not \<open>nil\<close>.\<close>

definition E :: "error option \<Rightarrow> panic option" where
  "E err = map_option ErrorPanic err"

text \<open>\<open>Browser.PageFromTargetID\<close> (lines 50 to 54) and \<open>Page.Screenshot\<close> (lines 206 to 211).\<close>

definition PageFromTargetID :: "collaborators \<Rightarrow> string \<Rightarrow> panic + page" where
  "PageFromTargetID cs ident =
     (case PageFromTargetIDE cs ident of
        Inl err \<Rightarrow> Inl (ErrorPanic err)
      | Inr p \<Rightarrow> Inr p)"

definition Screenshot :: "collaborators \<Rightarrow> page \<Rightarrow> panic + string" where
  "Screenshot cs p =
     (case ScreenshotE cs p of
        Inl err \<Rightarrow> Inl (ErrorPanic err)
      | Inr bin \<Rightarrow>
          (case E (saveScreenshot cs bin) of
             Some pn \<Rightarrow> Inl pn
           | None \<Rightarrow> Inr bin))"

text \<open>The static assets \<open>assets.Monitor\<close> and \<open>assets.MonitorPage\<close>, constants outside
  \<open>sugar.go\<close>.\<close>

record assets =
  Monitor :: string
  MonitorPage :: string

text \<open>The five handlers of lines 858 to 880; \<open>ident\<close> is \<open>ctx.Param("id")\<close>.\<close>

definition handleRoot :: "assets \<Rightarrow> string \<Rightarrow> handler" where
  "handleRoot a ident ctx = (ginHTML ctx (Monitor a), None)"

definition handlePages :: "collaborators \<Rightarrow> string \<Rightarrow> handler" where
  "handlePages cs ident ctx =
     (case TargetGetTargets cs of
        Inl err \<Rightarrow> (ctx, Some (ErrorPanic err))
      | Inr infos \<Rightarrow> (PureJSON 200 infos ctx, None))"

definition handlePage :: "assets \<Rightarrow> string \<Rightarrow> handler" where
  "handlePage a ident ctx = (ginHTML ctx (MonitorPage a), None)"

definition handleApiPage :: "collaborators \<Rightarrow> string \<Rightarrow> handler" where
  "handleApiPage cs ident ctx =
     (case pageInfo cs ident of
        Inl err \<Rightarrow> (ctx, Some (ErrorPanic err))
      | Inr info \<Rightarrow> (PureJSON 200 info ctx, None))"

definition handleScreenshot :: "collaborators \<Rightarrow> string \<Rightarrow> handler" where
  "handleScreenshot cs ident ctx =
     (case PageFromTargetID cs ident of
        Inl pn \<Rightarrow> (ctx, Some pn)
      | Inr p \<Rightarrow>
          let ctx1 = Header ''Content-Type'' ''image/png;'' ctx in
          (case Screenshot cs p of
             Inl pn \<Rightarrow> (ctx1, Some pn)
           | Inr bin \<Rightarrow> (Write bin ctx1, None)))"

definition monitorHandlers :: "collaborators \<Rightarrow> assets \<Rightarrow> (string \<times> (string \<Rightarrow> handler)) list" where
  "monitorHandlers cs a =
     [(''/'', handleRoot a),
      (''/pages'', handlePages cs),
      (''/page/:id'', handlePage a),
      (''/api/page/:id'', handleApiPage cs),
      (''/screenshot/:id'', handleScreenshot cs)]"

text \<open>
  The middleware of lines 850 to 857: \<open>ctx.Next()\<close> runs the rest of the chain under a deferred
  \<open>recover\<close>, which turns a panic into \<open>ctx.AbortWithError(400, fmt.Errorf("%v", err))\<close>.
\<close>

definition recoverMiddleware :: "handler \<Rightarrow> handler" where
  "recoverMiddleware next ctx =
     (let (ctx', pn) = next ctx in
      case pn of
        None \<Rightarrow> (ctx', None)
      | Some v \<Rightarrow> (AbortWithError 400 (panicText v) ctx', None))"

text \<open>
  The server (\<open>kit.ServerContext\<close>): the bound address, the keep-alive setting, the middleware
  in use, and the routes. A route is registered with the middleware in use at that moment
  around its handler, the first one outermost.
\<close>

record server =
  listenerAddr :: string
  keepAlives :: bool
  middleware :: "(handler \<Rightarrow> handler) list"
  routes :: "(string \<times> (string \<Rightarrow> handler)) list"

definition Use :: "(handler \<Rightarrow> handler) \<Rightarrow> server \<Rightarrow> server" where
  "Use m srv = srv\<lparr>middleware := middleware srv @ [m]\<rparr>"

definition GET :: "string \<times> (string \<Rightarrow> handler) \<Rightarrow> server \<Rightarrow> server" where
  "GET route srv =
     srv\<lparr>routes := routes srv @
           [(fst route, \<lambda>ident. foldr (\<lambda>m h. m h) (middleware srv) (snd route ident))]\<rparr>"

text \<open>\<open>kit.MustServer(host)\<close> binds the listener and panics when that fails.\<close>

definition MustServer :: "env \<Rightarrow> string \<Rightarrow> run \<Rightarrow> (panic + server) \<times> run" where
  "MustServer e host r =
     (let r' = r @ [Listen host] in
      case listenReply e r' of
        Inl err \<Rightarrow> (Inl (ErrorPanic err), r')
      | Inr addr \<Rightarrow>
          (Inr \<lparr>listenerAddr = addr, keepAlives = True, middleware = [], routes = []\<rparr>, r'))"

text \<open>
  \<open>Browser.ServeMonitor\<close> (lines 840 to 893). \<open>None\<close> is the \<open>nil\<close> server. The two goroutines
  are recorded as started; what they do later is outside the model.
\<close>

definition ServeMonitor ::
  "collaborators \<Rightarrow> assets \<Rightarrow> env \<Rightarrow> string \<Rightarrow> bool \<Rightarrow> run \<Rightarrow> (panic + server option) \<times> run" where
  "ServeMonitor cs a e host openBrowser r =
     (if host = [] then (Inr None, r)
      else
        case MustServer e host r of
          (Inl pn, r1) \<Rightarrow> (Inl pn, r1)
        | (Inr srv0, r1) \<Rightarrow>
            let srv1 = srv0\<lparr>keepAlives := False\<rparr>;
                srv2 = Use recoverMiddleware srv1;
                srv = foldl (\<lambda>s route. GET route s) srv2 (monitorHandlers cs a);
                r2 = r1 @ [GoServe (listenerAddr srv), GoCloseOnDone (listenerAddr srv)];
                r3 = (if openBrowser
                      then r2 @ [OpenBrowser (''http://'' @ listenerAddr srv)] else r2)
            in (Inr (Some srv), r3))"

section \<open>Reading a run, and example inputs\<close>

text \<open>The run a call of \<open>tryTraceFn\<close> leaves, and the closure it returns applied to that run.\<close>

definition runOf :: "panic + (run \<Rightarrow> run) \<times> run \<Rightarrow> run" where
  "runOf res = (case res of Inl _ \<Rightarrow> [] | Inr (_, r) \<Rightarrow> r)"

text \<open>The call texts the default sink printed: the messages logged under the label \<open>js\<close>.\<close>

fun printedCall :: "event \<Rightarrow> string option" where
  "printedCall (LogPrintln label colour msg) = (if label = ''js'' then Some msg else None)"
| "printedCall _ = None"

definition printedCalls :: "run \<Rightarrow> string list" where
  "printedCalls r = List.map_filter printedCall r"

text \<open>The captions drawn: the last argument of each evaluation of the \<open>overlay\<close> helper.\<close>

fun overlayCaption :: "event \<Rightarrow> string option" where
  "overlayCaption (PageEvalE target byValue thisID js args) =
     (if js = fst (jsHelper ''overlay'' []) \<and> args \<noteq> []
      then (case last args of JStr msg \<Rightarrow> Some msg | _ \<Rightarrow> None)
      else None)"
| "overlayCaption _ = None"

definition overlayCaptions :: "run \<Rightarrow> string list" where
  "overlayCaptions r = List.map_filter overlayCaption r"

text \<open>The number of remote evaluations in a run, the call counter of a stub collaborator.\<close>

fun isEval :: "event \<Rightarrow> bool" where
  "isEval (PageEvalE target byValue thisID js args) = True"
| "isEval (ElementEvalE obj byValue js args) = True"
| "isEval _ = False"

definition evalCount :: "run \<Rightarrow> nat" where
  "evalCount r = length (filter isEval r)"

text \<open>A stub world that answers every evaluation the same way, and a browser with the default
  sinks.\<close>

definition stubEnv :: "error + remoteObject \<Rightarrow> env" where
  "stubEnv reply =
     \<lparr>evalReply = (\<lambda>_. reply), randReply = (\<lambda>_. ''k3x9w2pq''),
      listenReply = (\<lambda>_. Inr ''127.0.0.1:9273'')\<rparr>"

definition stubBrowser :: "bool \<Rightarrow> bool \<Rightarrow> 64 word \<Rightarrow> browser" where
  "stubBrowser t q d =
     \<lparr>trace = t, quiet = q, slowmotion = d, traceLogAct = defaultTraceLogAct,
      traceLogJS = defaultTraceLogJS, traceLogErr = defaultTraceLogErr\<rparr>"

definition stubPage :: "browser \<Rightarrow> page" where
  "stubPage b = \<lparr>pageBrowser = b, targetID = ''T1'', rootID = ''T0''\<rparr>"

definition stubElement :: "browser \<Rightarrow> element" where
  "stubElement b = \<lparr>elPage = stubPage b, objectID = ''obj-7''\<rparr>"

definition stubMouse :: "browser \<Rightarrow> mouse" where
  "stubMouse b = \<lparr>mousePage = stubPage b, mouseID = ''m1'', mouseX = 10, mouseY = 20\<rparr>"

definition stubCollaborators :: collaborators where
  "stubCollaborators =
     \<lparr>TargetGetTargets = Inl (OtherError ''browser closed''),
      pageInfo = (\<lambda>_. Inr JNull),
      PageFromTargetIDE = (\<lambda>_. Inr (stubPage (stubBrowser False False 0))),
      ScreenshotE = (\<lambda>_. Inl DeadlineExceeded),
      saveScreenshot = (\<lambda>_. None)\<rparr>"

definition stubAssets :: assets where
  "stubAssets = \<lparr>Monitor = ''<html>monitor</html>'', MonitorPage = ''<html>page</html>''\<rparr>"

text \<open>The routes a call of \<open>ServeMonitor\<close> left registered on the server it returned.\<close>

definition servedRoutes ::
  "(panic + server option) \<times> run \<Rightarrow> (string \<times> (string \<Rightarrow> handler)) list" where
  "servedRoutes res = (case fst res of Inr (Some srv) \<Rightarrow> routes srv | _ \<Rightarrow> [])"

text \<open>
  What reaches the client of a request is the status, the headers and the body. A response
  carries a text when the text stands in its body or in the value of one of its headers.
\<close>

definition responseCarries :: "ginContext \<Rightarrow> string \<Rightarrow> bool" where
  "responseCarries ctx txt =
     (sublist txt (body ctx) \<or> list_ex (\<lambda>kv. sublist txt (snd kv)) (headers ctx))"

text \<open>The context of a request no handler has touched yet.\<close>

definition freshContext :: ginContext where
  "freshContext =
     \<lparr>status = 200, headers = [], body = [], written = False, ginErrors = [], aborted = False\<rparr>"

section \<open>What a match of the pattern looks like\<close>

lemma take_le_takeWhile:
  assumes "n \<le> length (takeWhile P xs)"
  shows "set (take n xs) \<subseteq> {x. P x}"
proof -
  have "take n xs = take n (takeWhile P xs @ dropWhile P xs)" by simp
  also have "\<dots> = take n (takeWhile P xs)" using assms by (simp only: take_append) simp
  finally have "take n xs = take n (takeWhile P xs)" .
  then show ?thesis by (metis (no_types, lifting) in_set_takeD set_takeWhileD mem_Collect_eq subsetI)
qed

lemma find_dotPlus:
  assumes "find Q (dotPlusLengths s) = Some n"
  shows "Q n \<and> take n s \<noteq> [] \<and> LF \<notin> set (take n s)"
proof -
  from assms have nin: "n \<in> set (dotPlusLengths s)" and q: "Q n"
    by (auto simp: find_Some_iff)
  from nin have n1: "1 \<le> n" and n2: "n \<le> length (takeWhile (\<lambda>c. c \<noteq> LF) s)"
    by (auto simp: dotPlusLengths_def)
  have "length (takeWhile (\<lambda>c. c \<noteq> LF) s) \<le> length s"
    by (rule length_takeWhile_le)
  with n1 n2 have ne: "take n s \<noteq> []" by auto
  from take_le_takeWhile [OF n2] have "LF \<notin> set (take n s)" by auto
  with q ne show ?thesis by simp
qed

lemma FindStringSubmatch_unfold:
  "FindStringSubmatch js =
     (if \<not> prefix (wrapperHead @ ''rod.'') js then None
      else case find (\<lambda>n. prefix wrapperTail (drop n (drop (length (wrapperHead @ ''rod.'')) js)))
                  (dotPlusLengths (drop (length (wrapperHead @ ''rod.'')) js)) of
          None \<Rightarrow> None
        | Some n \<Rightarrow>
            Some [wrapperHead @ ''rod.'' @ take n (drop (length (wrapperHead @ ''rod.'')) js) @ wrapperTail,
                  ''rod.'' @ take n (drop (length (wrapperHead @ ''rod.'')) js)])"
  unfolding FindStringSubmatch_def Let_def ..

lemma FindStringSubmatch_group:
  assumes "FindStringSubmatch js = Some ms"
  shows "\<exists>name. name \<noteq> [] \<and> LF \<notin> set name
     \<and> ms = [wrapperHead @ ''rod.'' @ name @ wrapperTail, ''rod.'' @ name]
     \<and> prefix (wrapperHead @ ''rod.'' @ name @ wrapperTail) js"
proof -
  define h where "h = wrapperHead @ ''rod.''"
  define rest where "rest = drop (length h) js"
  have unf: "FindStringSubmatch js =
     (if \<not> prefix h js then None
      else case find (\<lambda>n. prefix wrapperTail (drop n rest)) (dotPlusLengths rest) of
          None \<Rightarrow> None
        | Some n \<Rightarrow> Some [h @ take n rest @ wrapperTail, ''rod.'' @ take n rest])"
    unfolding h_def rest_def by (subst FindStringSubmatch_unfold) (simp only: append.assoc)
  from assms unf have pre: "prefix h js"
    by (cases "prefix h js") simp_all
  with assms unf obtain n where
    f: "find (\<lambda>n. prefix wrapperTail (drop n rest)) (dotPlusLengths rest) = Some n"
    and ms: "ms = [h @ take n rest @ wrapperTail, ''rod.'' @ take n rest]"
    by (cases "find (\<lambda>n. prefix wrapperTail (drop n rest)) (dotPlusLengths rest)") simp_all
  from find_dotPlus [OF f] have tl: "prefix wrapperTail (drop n rest)"
    and ne: "take n rest \<noteq> []" and nolf: "LF \<notin> set (take n rest)"
    by simp_all
  from pre have js: "js = h @ rest"
    unfolding rest_def by (auto simp: prefix_def)
  from tl obtain zs where "drop n rest = wrapperTail @ zs" by (auto simp: prefix_def)
  then have "rest = take n rest @ wrapperTail @ zs" by (metis append_take_drop_id)
  with js have "js = (h @ take n rest @ wrapperTail) @ zs" by simp
  then have "prefix (h @ take n rest @ wrapperTail) js" unfolding prefix_def by blast
  with ne nolf ms show ?thesis unfolding h_def by (intro exI [of _ "take n rest"]) simp
qed

lemma FindStringSubmatch_second:
  assumes "FindStringSubmatch js = Some ms"
  shows "\<exists>name. name \<noteq> [] \<and> ms ! 1 = ''rod.'' @ name
     \<and> prefix (wrapperHead @ ''rod.'' @ name @ wrapperTail) js"
proof -
  from FindStringSubmatch_group [OF assms] obtain name where
    "name \<noteq> []" "ms = [wrapperHead @ ''rod.'' @ name @ wrapperTail, ''rod.'' @ name]"
    "prefix (wrapperHead @ ''rod.'' @ name @ wrapperTail) js" by blast
  then show ?thesis by (intro exI [of _ name]) simp
qed

section \<open>The call tracer\<close>

text \<open>What \<open>tryTraceFn\<close> does once tracing is enabled and the unwrapping did not panic.\<close>
lemma tryTraceFn_enabled:
  assumes "trace (pageBrowser p)" and "unwrapHelperJS js params = Inr (js', params')"
  shows "tryTraceFn e p js params r =
     Inr (Overlay e p 0 0 500 0
            (''js <code>'' @ js' @ ''('' @ EscapeString (Trim (jsonForDevText params') traceCutset)
               @ '')</code>'')
            (if quiet (pageBrowser p) then r @ [ToJSONForDev params']
             else traceLogJS (pageBrowser p) js' params' (r @ [ToJSONForDev params'])))"
  using assms by (simp add: tryTraceFn_def mustToJSONForDev_def traceFnMsg_def)

text \<open>
  C2: when the script source does not match the generated-wrapper pattern, the call tracer
  shows the raw source followed by the whole argument list: the caption and the logged call are
  built from \<open>js\<close> and \<open>params\<close> as they were passed. For the source \<open>n => n + 1\<close> and the
  arguments \<open>[1]\<close> the call is rendered as \<open>n => n + 1(1)\<close>, in the log line and inside the
  \<open>code\<close> element of the caption.
\<close>

theorem unmatched_source_shown_raw:
  \<open>(trace (pageBrowser p) \<longrightarrow> FindStringSubmatch js = None \<longrightarrow>
      tryTraceFn e p js params r =
        Inr (Overlay e p 0 0 500 0
               (''js <code>'' @ js @ ''('' @ EscapeString (Trim (jsonForDevText params) traceCutset)
                  @ '')</code>'')
               (if quiet (pageBrowser p) then r @ [ToJSONForDev params]
                else traceLogJS (pageBrowser p) js params (r @ [ToJSONForDev params]))))
   \<and> printedCalls (runOf (tryTraceFn (stubEnv (Inl Canceled)) (stubPage (stubBrowser True False 0))
          ''n => n + 1'' [JNum 1] [])) = [''n => n + 1(1)'']
   \<and> overlayCaptions (runOf (tryTraceFn (stubEnv (Inl Canceled)) (stubPage (stubBrowser True False 0))
          ''n => n + 1'' [JNum 1] [])) = [''js <code>n => n + 1(1)</code>'']\<close>
proof (intro conjI impI)
  assume "trace (pageBrowser p)" and "FindStringSubmatch js = None"
  then show "tryTraceFn e p js params r =
        Inr (Overlay e p 0 0 500 0
               (''js <code>'' @ js @ ''('' @ EscapeString (Trim (jsonForDevText params) traceCutset)
                  @ '')</code>'')
               (if quiet (pageBrowser p) then r @ [ToJSONForDev params]
                else traceLogJS (pageBrowser p) js params (r @ [ToJSONForDev params])))"
    by (intro tryTraceFn_enabled) (simp_all add: unwrapHelperJS_def)
next
  show "printedCalls (runOf (tryTraceFn (stubEnv (Inl Canceled)) (stubPage (stubBrowser True False 0))
          ''n => n + 1'' [JNum 1] [])) = [''n => n + 1(1)'']"
    by code_simp
next
  show "overlayCaptions (runOf (tryTraceFn (stubEnv (Inl Canceled)) (stubPage (stubBrowser True False 0))
          ''n => n + 1'' [JNum 1] [])) = [''js <code>n => n + 1(1)</code>'']"
    by code_simp
qed

theorem unmatched_source_shown_raw_witness:
  "trace (pageBrowser (stubPage (stubBrowser True True 0)))
   \<and> FindStringSubmatch ''() => document.title'' = None
   \<and> tryTraceFn (stubEnv (Inl Canceled)) (stubPage (stubBrowser True True 0))
        ''() => document.title'' [JBool True, JNull] []
      = Inr (Overlay (stubEnv (Inl Canceled)) (stubPage (stubBrowser True True 0)) 0 0 500 0
               ''js <code>() => document.title(true,null)</code>''
               [ToJSONForDev [JBool True, JNull]])"
proof -
  have h1: "trace (pageBrowser (stubPage (stubBrowser True True 0)))"
    by (simp add: stubPage_def stubBrowser_def)
  have h2: "FindStringSubmatch ''() => document.title'' = None"
    by code_simp
  have h3: "quiet (pageBrowser (stubPage (stubBrowser True True 0)))"
    by (simp add: stubPage_def stubBrowser_def)
  have h4: "''js <code>'' @ ''() => document.title'' @ ''(''
        @ EscapeString (Trim (jsonForDevText [JBool True, JNull]) traceCutset) @ '')</code>''
      = ''js <code>() => document.title(true,null)</code>''"
    by code_simp
  from unmatched_source_shown_raw
    [of "stubPage (stubBrowser True True 0)" "''() => document.title''"
        "stubEnv (Inl Canceled)" "[JBool True, JNull]" "[]"]
  have "tryTraceFn (stubEnv (Inl Canceled)) (stubPage (stubBrowser True True 0))
        ''() => document.title'' [JBool True, JNull] []
      = Inr (Overlay (stubEnv (Inl Canceled)) (stubPage (stubBrowser True True 0)) 0 0 500 0
               (''js <code>'' @ ''() => document.title'' @ ''(''
        @ EscapeString (Trim (jsonForDevText [JBool True, JNull]) traceCutset) @ '')</code>'')
               (if quiet (pageBrowser (stubPage (stubBrowser True True 0))) then [] @ [ToJSONForDev [JBool True, JNull]]
                else traceLogJS (pageBrowser (stubPage (stubBrowser True True 0))) ''() => document.title'' [JBool True, JNull] ([] @ [ToJSONForDev [JBool True, JNull]])))"
    using h1 h2 by blast
  then show ?thesis using h1 h2 h3 h4 by (simp only: if_True append_Nil simp_thms)
qed

text \<open>
  C1, as the spec states it, fails: for the source \<open>(rod, ...args) => rod.foo.apply(this, \<close>
  and the arguments \<open>["x", "id1", "hello"]\<close> the call is not rendered as
  \<open>foo("id1", "hello")\<close>, neither in the log line (with or without the space after the
  comma) nor inside the caption.
\<close>

theorem wrapper_caption_counterexample:
  \<open>printedCalls (runOf (tryTraceFn (stubEnv (Inl Canceled)) (stubPage (stubBrowser True False 0))
       ''(rod, ...args) => rod.foo.apply(this, '' [JStr ''x'', JStr ''id1'', JStr ''hello''] []))
     \<noteq> [''foo("id1", "hello")'']
   \<and> printedCalls (runOf (tryTraceFn (stubEnv (Inl Canceled)) (stubPage (stubBrowser True False 0))
       ''(rod, ...args) => rod.foo.apply(this, '' [JStr ''x'', JStr ''id1'', JStr ''hello''] []))
     \<noteq> [''foo("id1","hello")'']
   \<and> overlayCaptions (runOf (tryTraceFn (stubEnv (Inl Canceled)) (stubPage (stubBrowser True False 0))
       ''(rod, ...args) => rod.foo.apply(this, '' [JStr ''x'', JStr ''id1'', JStr ''hello''] []))
     \<noteq> [traceFnMsg ''foo'' ''"id1", "hello"'']\<close>
  by code_simp

text \<open>
  C1, amended: when the script source matches the generated-wrapper pattern, the call tracer
  replaces the displayed source with the text of the capture group, which is \<open>rod.\<close> followed
  by the non-empty name that stands before \<open>.apply(this, \<close>, and drops the first argument from
  the displayed list. For the source \<open>(rod, ...args) => rod.foo.apply(this, \<close> and the arguments
  \<open>["x", "id1", "hello"]\<close> the call is rendered as \<open>rod.foo("id1","hello")\<close>; the caption holds
  it with the argument text escaped for HTML.
\<close>

theorem wrapper_source_unwrapped:
  \<open>(trace (pageBrowser p) \<longrightarrow> FindStringSubmatch js = Some ms \<longrightarrow>
      (\<exists>name. name \<noteq> [] \<and> ms ! 1 = ''rod.'' @ name
          \<and> prefix (wrapperHead @ ''rod.'' @ name @ wrapperTail) js)
      \<and> tryTraceFn e p js (a # ps) r =
        Inr (Overlay e p 0 0 500 0
               (''js <code>'' @ ms ! 1 @ ''('' @ EscapeString (Trim (jsonForDevText ps) traceCutset)
                  @ '')</code>'')
               (if quiet (pageBrowser p) then r @ [ToJSONForDev ps]
                else traceLogJS (pageBrowser p) (ms ! 1) ps (r @ [ToJSONForDev ps]))))
   \<and> printedCalls (runOf (tryTraceFn (stubEnv (Inl Canceled)) (stubPage (stubBrowser True False 0))
          ''(rod, ...args) => rod.foo.apply(this, '' [JStr ''x'', JStr ''id1'', JStr ''hello''] []))
       = [''rod.foo("id1","hello")'']
   \<and> overlayCaptions (runOf (tryTraceFn (stubEnv (Inl Canceled)) (stubPage (stubBrowser True False 0))
          ''(rod, ...args) => rod.foo.apply(this, '' [JStr ''x'', JStr ''id1'', JStr ''hello''] []))
       = [''js <code>rod.foo(&#34;id1&#34;,&#34;hello&#34;)</code>'']\<close>
proof (intro conjI impI)
  assume "trace (pageBrowser p)" and m: "FindStringSubmatch js = Some ms"
  then show "tryTraceFn e p js (a # ps) r =
        Inr (Overlay e p 0 0 500 0
               (''js <code>'' @ ms ! 1 @ ''('' @ EscapeString (Trim (jsonForDevText ps) traceCutset)
                  @ '')</code>'')
               (if quiet (pageBrowser p) then r @ [ToJSONForDev ps]
                else traceLogJS (pageBrowser p) (ms ! 1) ps (r @ [ToJSONForDev ps])))"
    by (intro tryTraceFn_enabled) (simp_all add: unwrapHelperJS_def)
  from m show "\<exists>name. name \<noteq> [] \<and> ms ! 1 = ''rod.'' @ name
          \<and> prefix (wrapperHead @ ''rod.'' @ name @ wrapperTail) js"
    by (rule FindStringSubmatch_second)
next
  show \<open>printedCalls (runOf (tryTraceFn (stubEnv (Inl Canceled)) (stubPage (stubBrowser True False 0))
          ''(rod, ...args) => rod.foo.apply(this, '' [JStr ''x'', JStr ''id1'', JStr ''hello''] []))
       = [''rod.foo("id1","hello")'']\<close>
    by code_simp
next
  show "overlayCaptions (runOf (tryTraceFn (stubEnv (Inl Canceled)) (stubPage (stubBrowser True False 0))
          ''(rod, ...args) => rod.foo.apply(this, '' [JStr ''x'', JStr ''id1'', JStr ''hello''] []))
       = [''js <code>rod.foo(&#34;id1&#34;,&#34;hello&#34;)</code>'']"
    by code_simp
qed

theorem wrapper_source_unwrapped_witness:
  "trace (pageBrowser (stubPage (stubBrowser True True 0)))
   \<and> FindStringSubmatch ''(rod, ...args) => rod.overlay.apply(this, args)''
       = Some [''(rod, ...args) => rod.overlay.apply(this, '', ''rod.overlay'']
   \<and> tryTraceFn (stubEnv (Inl Canceled)) (stubPage (stubBrowser True True 0))
        ''(rod, ...args) => rod.overlay.apply(this, args)'' [JRemote [], JNum 7] []
      = Inr (Overlay (stubEnv (Inl Canceled)) (stubPage (stubBrowser True True 0)) 0 0 500 0
               ''js <code>rod.overlay(7)</code>''
               [ToJSONForDev [JNum 7]])"
proof -
  let ?p = "stubPage (stubBrowser True True 0)"
  let ?js = "''(rod, ...args) => rod.overlay.apply(this, args)''"
  let ?ms = "[''(rod, ...args) => rod.overlay.apply(this, '', ''rod.overlay'']"
  have h1: "trace (pageBrowser ?p)"
    by (simp add: stubPage_def stubBrowser_def)
  have h2: "FindStringSubmatch ?js = Some ?ms"
    by code_simp
  have h3: "quiet (pageBrowser ?p)"
    by (simp add: stubPage_def stubBrowser_def)
  have h4: "''js <code>'' @ ?ms ! 1 @ ''(''
        @ EscapeString (Trim (jsonForDevText [JNum 7]) traceCutset) @ '')</code>''
      = ''js <code>rod.overlay(7)</code>''"
    by code_simp
  from wrapper_source_unwrapped
    [of ?p ?js ?ms "stubEnv (Inl Canceled)" "JRemote []" "[JNum 7]" "[]"]
  have "tryTraceFn (stubEnv (Inl Canceled)) ?p ?js [JRemote [], JNum 7] []
      = Inr (Overlay (stubEnv (Inl Canceled)) ?p 0 0 500 0
               (''js <code>'' @ ?ms ! 1 @ ''(''
                  @ EscapeString (Trim (jsonForDevText [JNum 7]) traceCutset) @ '')</code>'')
               (if quiet (pageBrowser ?p) then [] @ [ToJSONForDev [JNum 7]]
                else traceLogJS (pageBrowser ?p) (?ms ! 1) [JNum 7] ([] @ [ToJSONForDev [JNum 7]])))"
    using h1 h2 by blast
  then show ?thesis using h1 h2 h3 h4 by (simp only: if_True append_Nil simp_thms)
qed

text \<open>
  C10: with tracing enabled and a source that matches the pattern, the call tracer drops the
  first argument without looking at the length of the list. On an empty list the slice
  expression \<open>params[1:]\<close> is out of range and the call panics; on a list with at least one
  argument the rest of the list is displayed and the call returns.
\<close>

theorem matching_source_needs_an_argument:
  assumes "trace (pageBrowser p)" and "FindStringSubmatch js = Some ms"
  shows "tryTraceFn e p js [] r = Inl (SliceBounds 1 0)
     \<and> unwrapHelperJS js (a # ps) = Inr (ms ! 1, ps)
     \<and> (\<exists>res. tryTraceFn e p js (a # ps) r = Inr res)"
proof (intro conjI)
  from assms show "tryTraceFn e p js [] r = Inl (SliceBounds 1 0)"
    by (simp add: tryTraceFn_def unwrapHelperJS_def)
  from assms show u: "unwrapHelperJS js (a # ps) = Inr (ms ! 1, ps)"
    by (simp add: unwrapHelperJS_def)
  from tryTraceFn_enabled [OF assms(1) u]
  show "\<exists>res. tryTraceFn e p js (a # ps) r = Inr res" by blast
qed

theorem matching_source_needs_an_argument_witness:
  "trace (pageBrowser (stubPage (stubBrowser True False 0)))
   \<and> FindStringSubmatch ''(rod, ...args) => rod.foo.apply(this, ''
       = Some [''(rod, ...args) => rod.foo.apply(this, '', ''rod.foo'']
   \<and> tryTraceFn (stubEnv (Inl Canceled)) (stubPage (stubBrowser True False 0))
        ''(rod, ...args) => rod.foo.apply(this, '' [] [] = Inl (SliceBounds 1 0)
   \<and> unwrapHelperJS ''(rod, ...args) => rod.foo.apply(this, '' [JStr ''x'', JStr ''id1'']
        = Inr (''rod.foo'', [JStr ''id1''])"
proof -
  let ?p = "stubPage (stubBrowser True False 0)"
  let ?js = "''(rod, ...args) => rod.foo.apply(this, ''"
  let ?ms = "[''(rod, ...args) => rod.foo.apply(this, '', ''rod.foo'']"
  have h1: "trace (pageBrowser ?p)"
    by (simp add: stubPage_def stubBrowser_def)
  have h2: "FindStringSubmatch ?js = Some ?ms"
    by code_simp
  have h3: "?ms ! 1 = ''rod.foo''" by simp
  from matching_source_needs_an_argument [OF h1 h2, of "stubEnv (Inl Canceled)" "[]" "JStr ''x''" "[JStr ''id1'']"]
  show ?thesis using h1 h2 h3 by (simp only: simp_thms)
qed

section \<open>Argument text\<close>

text \<open>
  When the text between the outer characters neither starts nor ends with a character of the
  cutset, \<open>Trim\<close> removes the outer characters and nothing else.
\<close>

lemma Trim_strips_only_the_cutset:
  assumes "inner \<noteq> []" and "hd inner \<notin> set cutset" and "last inner \<notin> set cutset"
    and "set before \<subseteq> set cutset" and "set after \<subseteq> set cutset"
  shows "Trim (before @ inner @ after) cutset = inner"
proof -
  let ?P = "\<lambda>c. c \<in> set cutset"
  from assms(1) obtain x xs where inner: "inner = x # xs" by (cases inner) auto
  with assms(2) have nx: "\<not> ?P x" by simp
  have "dropWhile ?P (before @ inner @ after) = dropWhile ?P (inner @ after)"
    using assms(4) by (intro dropWhile_append2) auto
  also have "\<dots> = inner @ after" using nx inner by simp
  finally have left: "TrimLeft (before @ inner @ after) cutset = inner @ after"
    by (simp add: TrimLeft_def)
  from assms(1) have "rev (butlast inner @ [last inner]) = rev inner" by simp
  then have rinner: "rev inner = last inner # rev (butlast inner)" by simp
  have "dropWhile ?P (rev (inner @ after)) = dropWhile ?P (rev after @ rev inner)" by simp
  also have "\<dots> = dropWhile ?P (rev inner)"
    using assms(5) by (intro dropWhile_append2) auto
  also have "\<dots> = dropWhile ?P (last inner # rev (butlast inner))" by (simp only: rinner)
  also have "\<dots> = last inner # rev (butlast inner)" using assms(3) by simp
  also have "\<dots> = rev inner" by (simp only: rinner)
  finally have "TrimRight (inner @ after) cutset = inner"
    by (simp add: TrimRight_def)
  with left show ?thesis by (simp add: Trim_def)
qed

text \<open>
  C3: the argument list is serialized and the outer pair of brackets is stripped. The code
  strips with \<open>strings.Trim\<close> and the cutset \<open>[]\r\n\<close>, which removes every leading and
  trailing bracket: for the argument list \<open>[[1]]\<close>, whose serialization is \<open>[[1]]\<close> and a line
  feed, the printed form is \<open>1\<close> and not \<open>[1]\<close>, and the call \<open>n => n\<close> is rendered as
  \<open>n => n(1)\<close>.
\<close>

theorem nested_array_loses_inner_brackets:
  "jsonForDevText [JArr [JNum 1]] = ''[[1]]'' @ [LF]
   \<and> Trim (jsonForDevText [JArr [JNum 1]]) traceCutset = ''1''
   \<and> printedCalls (runOf (tryTraceFn (stubEnv (Inl Canceled)) (stubPage (stubBrowser True False 0))
        ''n => n'' [JArr [JNum 1]] [])) = [''n => n(1)'']
   \<and> overlayCaptions (runOf (tryTraceFn (stubEnv (Inl Canceled)) (stubPage (stubBrowser True False 0))
        ''n => n'' [JArr [JNum 1]] [])) = [''js <code>n => n(1)</code>'']"
  by code_simp

section \<open>Tracing switched off\<close>

text \<open>
  C4: with the tracing flag off, \<open>tryTraceFn\<close> and \<open>tryTrace\<close> leave the run as it was, for
  every source, argument list and message: no serialization, no log line, no remote
  evaluation (the count of evaluations stays). Both return the closure that does nothing, and
  neither can panic.
\<close>

theorem tracing_disabled_short_circuits:
  assumes "\<not> trace (pageBrowser p)" and "\<not> trace (pageBrowser (elPage el))"
  shows "tryTraceFn e p js params r = Inr (noop, r)
     \<and> tryTrace e el msg r = (noop, r)
     \<and> noop t = t
     \<and> evalCount (runOf (tryTraceFn e p js params r)) = evalCount r
     \<and> evalCount (snd (tryTrace e el msg r)) = evalCount r"
  using assms by (simp add: tryTraceFn_def tryTrace_def noop_def runOf_def)

theorem tracing_disabled_short_circuits_witness:
  "\<not> trace (pageBrowser (stubPage (stubBrowser False False 0)))
   \<and> \<not> trace (pageBrowser (elPage (stubElement (stubBrowser False False 0))))
   \<and> tryTraceFn (stubEnv (Inl Canceled)) (stubPage (stubBrowser False False 0))
        ''(rod, ...args) => rod.foo.apply(this, '' [] [Sleep 5] = Inr (noop, [Sleep 5])
   \<and> tryTrace (stubEnv (Inl Canceled)) (stubElement (stubBrowser False False 0)) ''click'' [Sleep 5]
        = (noop, [Sleep 5])
   \<and> noop [Sleep 5] = [Sleep 5]"
proof -
  have h1: "\<not> trace (pageBrowser (stubPage (stubBrowser False False 0)))"
    by (simp add: stubPage_def stubBrowser_def)
  have h2: "\<not> trace (pageBrowser (elPage (stubElement (stubBrowser False False 0))))"
    by (simp add: stubElement_def stubPage_def stubBrowser_def)
  from tracing_disabled_short_circuits [OF h1 h2] h1 h2 show ?thesis by blast
qed

section \<open>Mouse tracer, pacer, monitor\<close>

text \<open>
  C5: \<open>updateMouseTracer\<close> makes one remote evaluation. When it succeeds the result is the
  boolean value of what it returned: \<open>true\<close> for the value \<open>true\<close>, \<open>false\<close> for the value
  \<open>false\<close>, and in general the boolean reading of the value. When it fails the result is
  \<open>true\<close>, and the error goes nowhere.
\<close>

theorem mouse_tracer_update_result:
  "snd (updateMouseTracer e m r) =
     r @ [PageEvalE (targetID (mousePage m)) True []
            (fst (jsHelper ''updateMouseTracer'' [JStr (mouseID m), JNum (mouseX m), JNum (mouseY m)]))
            (snd (jsHelper ''updateMouseTracer'' [JStr (mouseID m), JNum (mouseX m), JNum (mouseY m)]))]
   \<and> (\<forall>obj. evalReply e (snd (updateMouseTracer e m r)) = Inr obj
         \<longrightarrow> fst (updateMouseTracer e m r) = jsonBool (Value obj))
   \<and> (\<forall>b. evalReply e (snd (updateMouseTracer e m r)) = Inr \<lparr>Value = JBool b\<rparr>
         \<longrightarrow> fst (updateMouseTracer e m r) = b)
   \<and> (\<forall>err. evalReply e (snd (updateMouseTracer e m r)) = Inl err
         \<longrightarrow> fst (updateMouseTracer e m r) = True)"
  by (auto simp: updateMouseTracer_def PageEvalE_call_def Let_def jsonBool_def
      split: prod.splits sum.splits)

theorem mouse_tracer_update_result_witness:
  "evalReply (stubEnv (Inl (OtherError ''page navigated'')))
       (snd (updateMouseTracer (stubEnv (Inl (OtherError ''page navigated'')))
          (stubMouse (stubBrowser True False 0)) []))
     = Inl (OtherError ''page navigated'')
   \<and> fst (updateMouseTracer (stubEnv (Inl (OtherError ''page navigated'')))
          (stubMouse (stubBrowser True False 0)) []) = True
   \<and> evalReply (stubEnv (Inr \<lparr>Value = JBool False\<rparr>))
       (snd (updateMouseTracer (stubEnv (Inr \<lparr>Value = JBool False\<rparr>))
          (stubMouse (stubBrowser True False 0)) []))
     = Inr \<lparr>Value = JBool False\<rparr>
   \<and> fst (updateMouseTracer (stubEnv (Inr \<lparr>Value = JBool False\<rparr>))
          (stubMouse (stubBrowser True False 0)) []) = False
   \<and> evalReply (stubEnv (Inr \<lparr>Value = JBool True\<rparr>))
       (snd (updateMouseTracer (stubEnv (Inr \<lparr>Value = JBool True\<rparr>))
          (stubMouse (stubBrowser True False 0)) []))
     = Inr \<lparr>Value = JBool True\<rparr>
   \<and> fst (updateMouseTracer (stubEnv (Inr \<lparr>Value = JBool True\<rparr>))
          (stubMouse (stubBrowser True False 0)) []) = True"
proof -
  let ?m = "stubMouse (stubBrowser True False 0)"
  let ?e1 = "stubEnv (Inl (OtherError ''page navigated''))"
  let ?e2 = "stubEnv (Inr \<lparr>Value = JBool False\<rparr>)"
  let ?e3 = "stubEnv (Inr \<lparr>Value = JBool True\<rparr>)"
  have h1: "evalReply ?e1 (snd (updateMouseTracer ?e1 ?m [])) = Inl (OtherError ''page navigated'')"
    by (simp add: stubEnv_def)
  have h2: "evalReply ?e2 (snd (updateMouseTracer ?e2 ?m [])) = Inr \<lparr>Value = JBool False\<rparr>"
    by (simp add: stubEnv_def)
  have h3: "evalReply ?e3 (snd (updateMouseTracer ?e3 ?m [])) = Inr \<lparr>Value = JBool True\<rparr>"
    by (simp add: stubEnv_def)
  from mouse_tracer_update_result [of ?e1 ?m "[]"] h1
  have a: "fst (updateMouseTracer ?e1 ?m []) = True" by blast
  from mouse_tracer_update_result [of ?e2 ?m "[]"] h2
  have b: "fst (updateMouseTracer ?e2 ?m []) = False" by blast
  from mouse_tracer_update_result [of ?e3 ?m "[]"] h3
  have c: "fst (updateMouseTracer ?e3 ?m []) = True" by blast
  from a b c h1 h2 h3 show ?thesis by blast
qed

text \<open>
  C6: with a slow-motion duration above zero the pacer calls \<open>time.Sleep\<close> once with that
  duration before it returns; with the duration zero it returns without calling it.
\<close>

theorem pacer_sleeps_only_for_a_duration:
  "(0 <s slowmotion b \<longrightarrow> trySlowmotion b r = r @ [Sleep (slowmotion b)])
   \<and> (slowmotion b = 0 \<longrightarrow> trySlowmotion b r = r)"
  by (auto simp: trySlowmotion_def)

theorem pacer_sleeps_only_for_a_duration_witness:
  "(0::64 word) <s slowmotion (stubBrowser True False 250)
   \<and> trySlowmotion (stubBrowser True False 250) [RandString 8] = [RandString 8, Sleep 250]
   \<and> slowmotion (stubBrowser True False 0) = 0
   \<and> trySlowmotion (stubBrowser True False 0) [RandString 8] = [RandString 8]"
proof -
  have s1: "slowmotion (stubBrowser True False 250) = 250" by (simp add: stubBrowser_def)
  have h1: "(0::64 word) <s slowmotion (stubBrowser True False 250)"
    unfolding s1 by (simp add: word_sless_alt)
  have h2: "slowmotion (stubBrowser True False 0) = 0" by (simp add: stubBrowser_def)
  from pacer_sleeps_only_for_a_duration [of "stubBrowser True False 250" "[RandString 8]"] h1
  have a: "trySlowmotion (stubBrowser True False 250) [RandString 8] = [RandString 8, Sleep 250]"
    by (simp add: s1)
  from pacer_sleeps_only_for_a_duration [of "stubBrowser True False 0" "[RandString 8]"] h2
  have b: "trySlowmotion (stubBrowser True False 0) [RandString 8] = [RandString 8]"
    by blast
  from a b h1 h2 show ?thesis by blast
qed

text \<open>
  C7: \<open>ServeMonitor\<close> with an empty host returns the \<open>nil\<close> server at once, whatever the
  \<open>openBrowser\<close> flag: no listener is bound, no route is registered, and the run is unchanged.
\<close>

theorem monitor_disabled_for_empty_host:
  "ServeMonitor cs a e [] openBrowser r = (Inr None, r)"
  by (simp add: ServeMonitor_def)

section \<open>Overlays are advisory\<close>

text \<open>\<open>Overlay\<close> and \<open>Trace\<close> with the calls they make written out.\<close>

lemma Overlay_unfold:
  "Overlay e p left top' width height msg r =
     (\<lambda>t. t @ [PageEvalE (rootID p) True []
                  (fst (jsHelper ''removeOverlay'' [JStr (randReply e (r @ [RandString 8]))]))
                  (snd (jsHelper ''removeOverlay'' [JStr (randReply e (r @ [RandString 8]))]))],
      case evalReply e (r @ [RandString 8, PageEvalE (rootID p) True []
               (fst (jsHelper ''overlay'' [JStr (randReply e (r @ [RandString 8])), JNum left,
                  JNum top', JNum width, JNum height, JStr msg]))
               (snd (jsHelper ''overlay'' [JStr (randReply e (r @ [RandString 8])), JNum left,
                  JNum top', JNum width, JNum height, JStr msg]))]) of
        Inl err \<Rightarrow> traceLogErr (pageBrowser p) err
            (r @ [RandString 8, PageEvalE (rootID p) True []
               (fst (jsHelper ''overlay'' [JStr (randReply e (r @ [RandString 8])), JNum left,
                  JNum top', JNum width, JNum height, JStr msg]))
               (snd (jsHelper ''overlay'' [JStr (randReply e (r @ [RandString 8])), JNum left,
                  JNum top', JNum width, JNum height, JStr msg]))])
      | Inr _ \<Rightarrow> r @ [RandString 8, PageEvalE (rootID p) True []
               (fst (jsHelper ''overlay'' [JStr (randReply e (r @ [RandString 8])), JNum left,
                  JNum top', JNum width, JNum height, JStr msg]))
               (snd (jsHelper ''overlay'' [JStr (randReply e (r @ [RandString 8])), JNum left,
                  JNum top', JNum width, JNum height, JStr msg]))])"
  by (simp add: Overlay_def RandString_call_def PageEvalE_call_def Let_def split_beta split: sum.split)

lemma Trace_unfold:
  "Trace e el msg r =
     (\<lambda>t. t @ [ElementEvalE (objectID el) True
                  (fst (jsHelper ''removeOverlay'' [JStr (randReply e (r @ [RandString 8]))]))
                  (snd (jsHelper ''removeOverlay'' [JStr (randReply e (r @ [RandString 8]))]))],
      case evalReply e (r @ [RandString 8, ElementEvalE (objectID el) True
               (fst (jsHelper ''elementOverlay'' [JStr (randReply e (r @ [RandString 8])), JStr msg]))
               (snd (jsHelper ''elementOverlay'' [JStr (randReply e (r @ [RandString 8])), JStr msg]))]) of
        Inl err \<Rightarrow> traceLogErr (pageBrowser (elPage el)) err
            (r @ [RandString 8, ElementEvalE (objectID el) True
               (fst (jsHelper ''elementOverlay'' [JStr (randReply e (r @ [RandString 8])), JStr msg]))
               (snd (jsHelper ''elementOverlay'' [JStr (randReply e (r @ [RandString 8])), JStr msg]))])
      | Inr _ \<Rightarrow> r @ [RandString 8, ElementEvalE (objectID el) True
               (fst (jsHelper ''elementOverlay'' [JStr (randReply e (r @ [RandString 8])), JStr msg]))
               (snd (jsHelper ''elementOverlay'' [JStr (randReply e (r @ [RandString 8])), JStr msg]))])"
  by (simp add: Trace_def RandString_call_def ElementEvalE_call_def Let_def split_beta split: sum.split)

text \<open>
  C8: \<open>Overlay\<close> and \<open>Trace\<close> draw with one remote evaluation. When it fails, the error is
  passed to the error sink once and the call still returns its remove closure; when it
  succeeds the sink is not called. The remove closure, on any run, makes one remote evaluation
  and nothing else, whatever that evaluation returns: its error is dropped.
\<close>

theorem overlay_errors_are_advisory:
  "(let ident = randReply e (r @ [RandString 8]);
        shown = r @ [RandString 8, PageEvalE (rootID p) True []
                  (fst (jsHelper ''overlay''
                     [JStr ident, JNum left, JNum top', JNum width, JNum height, JStr msg]))
                  (snd (jsHelper ''overlay''
                     [JStr ident, JNum left, JNum top', JNum width, JNum height, JStr msg]))]
    in (\<forall>err. evalReply e shown = Inl err \<longrightarrow>
          snd (Overlay e p left top' width height msg r) = traceLogErr (pageBrowser p) err shown)
     \<and> (\<forall>obj. evalReply e shown = Inr obj \<longrightarrow>
          snd (Overlay e p left top' width height msg r) = shown)
     \<and> (\<forall>t. fst (Overlay e p left top' width height msg r) t =
          t @ [PageEvalE (rootID p) True []
                 (fst (jsHelper ''removeOverlay'' [JStr ident]))
                 (snd (jsHelper ''removeOverlay'' [JStr ident]))]))
   \<and> (let ident = randReply e (r @ [RandString 8]);
        shown = r @ [RandString 8, ElementEvalE (objectID el) True
                  (fst (jsHelper ''elementOverlay'' [JStr ident, JStr msg]))
                  (snd (jsHelper ''elementOverlay'' [JStr ident, JStr msg]))]
    in (\<forall>err. evalReply e shown = Inl err \<longrightarrow>
          snd (Trace e el msg r) = traceLogErr (pageBrowser (elPage el)) err shown)
     \<and> (\<forall>obj. evalReply e shown = Inr obj \<longrightarrow> snd (Trace e el msg r) = shown)
     \<and> (\<forall>t. fst (Trace e el msg r) t =
          t @ [ElementEvalE (objectID el) True
                 (fst (jsHelper ''removeOverlay'' [JStr ident]))
                 (snd (jsHelper ''removeOverlay'' [JStr ident]))]))"
  unfolding Let_def
proof (intro conjI allI impI)
qed (simp_all add: Overlay_unfold Trace_unfold)

theorem overlay_errors_are_advisory_witness:
  "evalReply (stubEnv (Inl (OtherError ''navigating'')))
     [RandString 8, PageEvalE ''T0'' True [] ''(rod, ...args) => rod.overlay.apply(this, args)''
        [JRemote [], JStr ''k3x9w2pq'', JNum 1, JNum 2, JNum 30, JNum 40, JStr ''hi'']]
     = Inl (OtherError ''navigating'')
   \<and> snd (Overlay (stubEnv (Inl (OtherError ''navigating''))) (stubPage (stubBrowser True False 0))
        1 2 30 40 ''hi'' [])
     = [RandString 8, PageEvalE ''T0'' True [] ''(rod, ...args) => rod.overlay.apply(this, args)''
        [JRemote [], JStr ''k3x9w2pq'', JNum 1, JNum 2, JNum 30, JNum 40, JStr ''hi''],
        LogPrintln ''[rod trace err]'' ''yellow'' ''navigating'']
   \<and> fst (Overlay (stubEnv (Inl (OtherError ''navigating''))) (stubPage (stubBrowser True False 0))
        1 2 30 40 ''hi'' []) [Sleep 1]
     = [Sleep 1, PageEvalE ''T0'' True [] ''(rod, ...args) => rod.removeOverlay.apply(this, args)''
        [JRemote [], JStr ''k3x9w2pq'']]
   \<and> snd (Trace (stubEnv (Inl (OtherError ''navigating''))) (stubElement (stubBrowser True False 0))
        ''hi'' [])
     = [RandString 8, ElementEvalE ''obj-7'' True
        ''(rod, ...args) => rod.elementOverlay.apply(this, args)''
        [JRemote [], JStr ''k3x9w2pq'', JStr ''hi''],
        LogPrintln ''[rod trace err]'' ''yellow'' ''navigating'']
   \<and> fst (Trace (stubEnv (Inl (OtherError ''navigating''))) (stubElement (stubBrowser True False 0))
        ''hi'' []) [Sleep 1]
     = [Sleep 1, ElementEvalE ''obj-7'' True
        ''(rod, ...args) => rod.removeOverlay.apply(this, args)'' [JRemote [], JStr ''k3x9w2pq'']]"
proof -
  have ev: "\<And>t. evalReply (stubEnv (Inl (OtherError ''navigating''))) t
      = Inl (OtherError ''navigating'')"
    by (simp add: stubEnv_def)
  have rd: "\<And>t. randReply (stubEnv (Inl (OtherError ''navigating''))) t = ''k3x9w2pq''"
    by (simp add: stubEnv_def)
  have pg: "rootID (stubPage (stubBrowser True False 0)) = ''T0''"
    "objectID (stubElement (stubBrowser True False 0)) = ''obj-7''"
    "traceLogErr (pageBrowser (stubPage (stubBrowser True False 0))) = defaultTraceLogErr"
    "traceLogErr (pageBrowser (elPage (stubElement (stubBrowser True False 0)))) = defaultTraceLogErr"
    by (simp_all add: stubPage_def stubBrowser_def stubElement_def)
  have js: "\<And>ps. jsHelper ''overlay'' ps = (''(rod, ...args) => rod.overlay.apply(this, args)'', JRemote [] # ps)"
    "\<And>ps. jsHelper ''elementOverlay'' ps = (''(rod, ...args) => rod.elementOverlay.apply(this, args)'', JRemote [] # ps)"
    "\<And>ps. jsHelper ''removeOverlay'' ps = (''(rod, ...args) => rod.removeOverlay.apply(this, args)'', JRemote [] # ps)"
    by (simp_all add: jsHelper_def wrapperHead_def wrapperTail_def)
  have lg: "\<And>t. defaultTraceLogErr (OtherError ''navigating'') t
      = t @ [LogPrintln ''[rod trace err]'' ''yellow'' ''navigating'']"
    by (simp add: defaultTraceLogErr_def)
  from overlay_errors_are_advisory
    [of "stubEnv (Inl (OtherError ''navigating''))" "[]" "stubPage (stubBrowser True False 0)"
        1 2 30 40 "''hi''" "stubElement (stubBrowser True False 0)"]
  show ?thesis
    unfolding Let_def ev rd pg js by (simp add: lg)
qed

section \<open>The failure boundary of the monitor\<close>

text \<open>Every route is registered after the middleware, so it is served inside it.\<close>

lemma ServeMonitor_routes:
  assumes "host \<noteq> []" and "listenReply e (r @ [Listen host]) = Inr addr"
  shows "servedRoutes (ServeMonitor cs a e host ob r) =
     map (\<lambda>route. (fst route, \<lambda>ident. recoverMiddleware (snd route ident))) (monitorHandlers cs a)"
  using assms
  by (simp add: servedRoutes_def ServeMonitor_def MustServer_def Let_def monitorHandlers_def
      GET_def Use_def)

lemma monitorHandlers_length: "length (monitorHandlers cs a) = 5"
  by (simp add: monitorHandlers_def)

lemma raw_handler_panics:
  assumes "route \<in> set (monitorHandlers cs a)" and "snd (snd route ident ctx) = Some v"
  shows "written (fst (snd route ident ctx)) = written ctx
     \<and> ginErrors (fst (snd route ident ctx)) = ginErrors ctx
     \<and> body (fst (snd route ident ctx)) = body ctx"
  using assms
  by (auto simp: monitorHandlers_def handleRoot_def handlePages_def handlePage_def
      handleApiPage_def handleScreenshot_def Header_def Let_def
      split: sum.splits)

lemma recoverMiddleware_returns: "snd (recoverMiddleware next ctx) = None"
  by (simp add: recoverMiddleware_def split: prod.splits option.splits)

lemma recoverMiddleware_panic:
  assumes "snd (next ctx) = Some v"
  shows "fst (recoverMiddleware next ctx) = AbortWithError 400 (panicText v) (fst (next ctx))"
  using assms by (cases "next ctx") (simp add: recoverMiddleware_def)

lemma recoverMiddleware_pass:
  assumes "snd (next ctx) = None"
  shows "recoverMiddleware next ctx = next ctx"
  using assms by (cases "next ctx") (simp add: recoverMiddleware_def)

text \<open>
  C9, as worded, fails: the answer to a request whose handler panicked does not carry the
  description of the failure. With the target list failing with \<open>browser closed\<close>, the
  answer of \<open>/pages\<close> to a fresh request has status 400, no header and an empty body; the
  description is attached to the request on the server side only.
\<close>

theorem monitor_response_counterexample:
  "snd (snd (monitorHandlers stubCollaborators stubAssets ! 1) [] freshContext)
       = Some (ErrorPanic (OtherError ''browser closed''))
   \<and> status (fst (snd (servedRoutes (ServeMonitor stubCollaborators stubAssets
         (stubEnv (Inl Canceled)) '':0'' False []) ! 1) [] freshContext)) = 400
   \<and> \<not> responseCarries
         (fst (snd (servedRoutes (ServeMonitor stubCollaborators stubAssets
            (stubEnv (Inl Canceled)) '':0'' False []) ! 1) [] freshContext))
         (panicText (ErrorPanic (OtherError ''browser closed'')))"
proof -
  have h2: "listenReply (stubEnv (Inl Canceled)) ([] @ [Listen '':0'']) = Inr ''127.0.0.1:9273''"
    by (simp add: stubEnv_def)
  have raw: "snd (monitorHandlers stubCollaborators stubAssets ! 1) [] freshContext
      = (freshContext, Some (ErrorPanic (OtherError ''browser closed'')))"
    by (simp add: monitorHandlers_def handlePages_def stubCollaborators_def)
  have "snd (servedRoutes (ServeMonitor stubCollaborators stubAssets
         (stubEnv (Inl Canceled)) '':0'' False []) ! 1) [] freshContext
      = recoverMiddleware (snd (monitorHandlers stubCollaborators stubAssets ! 1) []) freshContext"
    by (simp add: ServeMonitor_routes [OF _ h2] monitorHandlers_length)
  also have "\<dots> = (AbortWithError 400 ''browser closed'' freshContext, None)"
    unfolding recoverMiddleware_def raw by simp
  finally have served: "snd (servedRoutes (ServeMonitor stubCollaborators stubAssets
         (stubEnv (Inl Canceled)) '':0'' False []) ! 1) [] freshContext
      = (AbortWithError 400 ''browser closed'' freshContext, None)" .
  show ?thesis
    unfolding served raw
    by (simp add: AbortWithError_def freshContext_def responseCarries_def)
qed

text \<open>
  C9, amended: on a server that \<open>ServeMonitor\<close> started, each of the five routes is served
  inside the recovering middleware. For a fresh request, serving never panics; when the
  handler panics (the target list, the target info, the page or the screenshot failed), the
  answer has status 400 and the chain is aborted, the description of the failure is attached
  to the request as its error on the server side, and nothing is written to the answer: its
  body is the request's and its headers are those the handler had set. When the handler
  returns, its answer is served as it is.
\<close>

theorem monitor_handlers_recover:
  assumes "host \<noteq> []" and "listenReply e (r @ [Listen host]) = Inr addr"
    and "\<not> written ctx" and "i < 5"
  shows "map fst (servedRoutes (ServeMonitor cs a e host ob r))
       = [''/'', ''/pages'', ''/page/:id'', ''/api/page/:id'', ''/screenshot/:id'']
     \<and> snd (snd (servedRoutes (ServeMonitor cs a e host ob r) ! i) ident ctx) = None
     \<and> (\<forall>v. snd (snd (monitorHandlers cs a ! i) ident ctx) = Some v \<longrightarrow>
           status (fst (snd (servedRoutes (ServeMonitor cs a e host ob r) ! i) ident ctx)) = 400
         \<and> ginErrors (fst (snd (servedRoutes (ServeMonitor cs a e host ob r) ! i) ident ctx))
             = ginErrors ctx @ [panicText v]
         \<and> aborted (fst (snd (servedRoutes (ServeMonitor cs a e host ob r) ! i) ident ctx))
         \<and> body (fst (snd (servedRoutes (ServeMonitor cs a e host ob r) ! i) ident ctx))
             = body ctx
         \<and> headers (fst (snd (servedRoutes (ServeMonitor cs a e host ob r) ! i) ident ctx))
             = headers (fst (snd (monitorHandlers cs a ! i) ident ctx)))
     \<and> (snd (snd (monitorHandlers cs a ! i) ident ctx) = None \<longrightarrow>
           snd (servedRoutes (ServeMonitor cs a e host ob r) ! i) ident ctx
             = snd (monitorHandlers cs a ! i) ident ctx)"
proof -
  let ?raw = "snd (monitorHandlers cs a ! i)"
  let ?served = "snd (servedRoutes (ServeMonitor cs a e host ob r) ! i)"
  note rt = ServeMonitor_routes [OF assms(1,2), of cs a ob]
  from assms(4) have il: "i < length (monitorHandlers cs a)"
    by (simp add: monitorHandlers_length)
  have served: "?served = (\<lambda>ident. recoverMiddleware (?raw ident))"
    using il by (simp add: rt)
  have paths: "map fst (servedRoutes (ServeMonitor cs a e host ob r))
       = [''/'', ''/pages'', ''/page/:id'', ''/api/page/:id'', ''/screenshot/:id'']"
    by (simp add: rt monitorHandlers_def)
  have ret: "snd (?served ident ctx) = None"
    by (simp add: served recoverMiddleware_returns)
  have pan: "status (fst (?served ident ctx)) = 400
         \<and> ginErrors (fst (?served ident ctx)) = ginErrors ctx @ [panicText v]
         \<and> aborted (fst (?served ident ctx))
         \<and> body (fst (?served ident ctx)) = body ctx
         \<and> headers (fst (?served ident ctx)) = headers (fst (?raw ident ctx))"
    if v: "snd (?raw ident ctx) = Some v" for v
  proof -
    from il have "monitorHandlers cs a ! i \<in> set (monitorHandlers cs a)" by simp
    from raw_handler_panics [OF this v] assms(3)
    have w: "\<not> written (fst (?raw ident ctx))"
      and g: "ginErrors (fst (?raw ident ctx)) = ginErrors ctx"
      and bd: "body (fst (?raw ident ctx)) = body ctx"
      by simp_all
    have "fst (?served ident ctx) = AbortWithError 400 (panicText v) (fst (?raw ident ctx))"
      using v by (simp add: served recoverMiddleware_panic)
    with w g bd show ?thesis by (simp add: AbortWithError_def)
  qed
  have pass: "?served ident ctx = ?raw ident ctx" if "snd (?raw ident ctx) = None"
    using that by (simp add: served recoverMiddleware_pass)
  from paths ret pan pass show ?thesis by blast
qed

theorem monitor_handlers_recover_witness:
  "'':0'' \<noteq> []
   \<and> listenReply (stubEnv (Inl Canceled)) ([] @ [Listen '':0'']) = Inr ''127.0.0.1:9273''
   \<and> \<not> written freshContext
   \<and> (1::nat) < 5
   \<and> snd (snd (monitorHandlers stubCollaborators stubAssets ! 1) [] freshContext)
       = Some (ErrorPanic (OtherError ''browser closed''))
   \<and> snd (snd (servedRoutes (ServeMonitor stubCollaborators stubAssets (stubEnv (Inl Canceled))
         '':0'' False []) ! 1) [] freshContext) = None
   \<and> status (fst (snd (servedRoutes (ServeMonitor stubCollaborators stubAssets
         (stubEnv (Inl Canceled)) '':0'' False []) ! 1) [] freshContext)) = 400
   \<and> ginErrors (fst (snd (servedRoutes (ServeMonitor stubCollaborators stubAssets
         (stubEnv (Inl Canceled)) '':0'' False []) ! 1) [] freshContext)) = [''browser closed'']
   \<and> body (fst (snd (servedRoutes (ServeMonitor stubCollaborators stubAssets
         (stubEnv (Inl Canceled)) '':0'' False []) ! 1) [] freshContext)) = []"
proof -
  have h1: "'':0'' \<noteq> []" by simp
  have h2: "listenReply (stubEnv (Inl Canceled)) ([] @ [Listen '':0'']) = Inr ''127.0.0.1:9273''"
    by (simp add: stubEnv_def)
  have h3: "\<not> written freshContext" by (simp add: freshContext_def)
  have h4: "(1::nat) < 5" by simp
  have h5: "snd (snd (monitorHandlers stubCollaborators stubAssets ! 1) [] freshContext)
       = Some (ErrorPanic (OtherError ''browser closed''))"
    by (simp add: monitorHandlers_def handlePages_def stubCollaborators_def)
  have h6: "ginErrors freshContext @ [panicText (ErrorPanic (OtherError ''browser closed''))]
      = [''browser closed'']"
    by (simp add: freshContext_def)
  have h7: "body freshContext = []" by (simp add: freshContext_def)
  from monitor_handlers_recover [OF h1 h2 h3 h4, of stubCollaborators stubAssets False "[]"] h5
  have "snd (snd (servedRoutes (ServeMonitor stubCollaborators stubAssets (stubEnv (Inl Canceled))
         '':0'' False []) ! 1) [] freshContext) = None
   \<and> status (fst (snd (servedRoutes (ServeMonitor stubCollaborators stubAssets
         (stubEnv (Inl Canceled)) '':0'' False []) ! 1) [] freshContext)) = 400
   \<and> ginErrors (fst (snd (servedRoutes (ServeMonitor stubCollaborators stubAssets
         (stubEnv (Inl Canceled)) '':0'' False []) ! 1) [] freshContext))
      = ginErrors freshContext @ [panicText (ErrorPanic (OtherError ''browser closed''))]
   \<and> body (fst (snd (servedRoutes (ServeMonitor stubCollaborators stubAssets
         (stubEnv (Inl Canceled)) '':0'' False []) ! 1) [] freshContext)) = body freshContext"
    by blast
  with h1 h2 h3 h4 h5 h6 h7 show ?thesis by (simp only: simp_thms)
qed

end
